theory Spec2Isabelle
  imports Complex_Main
begin

section \<open>The Gemini Live streaming client (src/gemini-live/gemini-live-client.ts)\<close>

text \<open>
  The client is an event-driven object: its methods are called by the application, and
  its WebSocket handlers and timers are called back by the runtime. The model is a state
  record holding the fields of \<open>GeminiLiveClient\<close> together with the part of the
  runtime the handlers act on (the sockets created so far, the frames handed to the
  transport, the events emitted to listeners, the pending timers), one function per method
  or handler, and a step function over the calls and callbacks.
\<close>

subsection \<open>Values\<close>

text \<open>A JavaScript number: a finite value (both zeros are \<open>Num 0\<close>), NaN or an infinity.\<close>

datatype number = Num rat | NaN | PosInfinity | NegInfinity

text \<open>The result of \<open>JSON.parse\<close>; an object is its list of properties, keys unique.\<close>

datatype json =
    JNull
  | JBool bool
  | JNum number
  | JStr string
  | JArr "json list"
  | JObj "(string \<times> json) list"

text \<open>JavaScript truthiness, as used by \<open>||\<close>, \<open>&&\<close> and \<open>!\<close>.\<close>

fun truthy_number :: "number \<Rightarrow> bool" where
  "truthy_number (Num q) = (q \<noteq> 0)"
| "truthy_number NaN = False"
| "truthy_number PosInfinity = True"
| "truthy_number NegInfinity = True"

fun truthy :: "json \<Rightarrow> bool" where
  "truthy JNull = False"
| "truthy (JBool b) = b"
| "truthy (JNum n) = truthy_number n"
| "truthy (JStr s) = (s \<noteq> [])"
| "truthy (JArr xs) = True"
| "truthy (JObj kvs) = True"

text \<open>
  Property access \<open>message.name\<close>: \<open>Inl ()\<close> is the TypeError raised on \<open>null\<close>,
  \<open>Inr None\<close> is \<open>undefined\<close>. The names read by the client are not properties of
  numbers, strings, booleans or arrays.
\<close>

fun property :: "string \<Rightarrow> json \<Rightarrow> unit + json option" where
  "property name JNull = Inl ()"
| "property name (JObj kvs) = Inr (map_of kvs name)"
| "property name v = Inr None"

text \<open>\<open>buffer.toString('base64')\<close> of a byte buffer, kept as the bytes it encodes.\<close>

datatype base64 = Base64 "nat list"

subsection \<open>Configuration and the constructor\<close>

datatype level = low | medium | high

text \<open>\<open>interface GeminiLiveConfig\<close>: an optional field that is absent is \<open>None\<close>.\<close>

record GeminiLiveConfig =
  apiKey :: string
  model :: "string option"
  thinkingLevel :: "level option"
  mediaResolution :: "level option"
  vadEnabled :: "bool option"
  interruptionThreshold :: "number option"
  searchGrounding :: "bool option"

text \<open>\<open>Required<GeminiLiveConfig>\<close>, the type of the field \<open>this.config\<close>.\<close>

record RequiredConfig =
  config_apiKey :: string
  config_model :: string
  config_thinkingLevel :: level
  config_mediaResolution :: level
  config_vadEnabled :: bool
  config_interruptionThreshold :: number
  config_searchGrounding :: bool

text \<open>\<open>x || d\<close> on an optional string, number and boolean.\<close>

definition or_string :: "string option \<Rightarrow> string \<Rightarrow> string" where
  "or_string x d = (case x of None \<Rightarrow> d | Some s \<Rightarrow> if s \<noteq> [] then s else d)"

definition or_level :: "level option \<Rightarrow> level \<Rightarrow> level" where
  "or_level x d = (case x of None \<Rightarrow> d | Some l \<Rightarrow> l)"

definition or_number :: "number option \<Rightarrow> number \<Rightarrow> number" where
  "or_number x d = (case x of None \<Rightarrow> d | Some n \<Rightarrow> if truthy_number n then n else d)"

definition or_bool :: "bool option \<Rightarrow> bool \<Rightarrow> bool" where
  "or_bool x d = (case x of None \<Rightarrow> d | Some b \<Rightarrow> if b then b else d)"

definition resolve_config :: "GeminiLiveConfig \<Rightarrow> RequiredConfig" where
  "resolve_config config =
     \<lparr> config_apiKey = apiKey config,
       config_model = or_string (model config) ''gemini-3.0-live'',
       config_thinkingLevel = or_level (thinkingLevel config) medium,
       config_mediaResolution = or_level (mediaResolution config) medium,
       config_vadEnabled = (vadEnabled config \<noteq> Some False),
       config_interruptionThreshold = or_number (interruptionThreshold config) (Num (1 / 2)),
       config_searchGrounding = or_bool (searchGrounding config) False \<rparr>"

subsection \<open>Messages, frames and events\<close>

datatype message_type = Text | Audio | Video | Function_call

text \<open>The \<open>data\<close> field of a \<open>StreamMessage\<close>, as the four senders build it.\<close>

datatype payload =
    TextData string
  | VideoData string base64
  | AudioData number base64
  | FunctionData string json

record StreamMessage =
  m_type :: message_type
  m_data :: payload
  m_timestamp :: nat
  m_sessionId :: "json option"

text \<open>The object \<open>sendConfiguration\<close> serialises.\<close>

record configure =
  thinking_level :: level
  media_resolution :: level
  vad_enabled :: bool
  interruption_threshold :: number
  search_grounding :: bool
  code_execution :: bool
  function_calling :: bool

text \<open>What is handed to \<open>ws.send\<close>: the value that \<open>JSON.stringify\<close> serialises.\<close>

datatype frame =
    Configure_frame configure
  | Data_frame StreamMessage
  | Interrupt_frame nat

datatype error_value =
    Transport_error string
  | Handle_message_error
  | Server_error "json option"

text \<open>The events raised with \<open>this.emit\<close>, named after their event names.\<close>

datatype emitted =
    E_error error_value
  | E_disconnect nat string
  | E_session json
  | E_text "json option"
  | E_audio "nat list"
  | E_function_call "json option" "json option"
  | E_thinking "json option"
  | E_chunk json
  | E_message json
  | E_sent StreamMessage
  | E_reconnect
  | E_max_reconnect_reached

subsection \<open>The runtime: sockets, promises, timers\<close>

datatype ready_state = CONNECTING | OPEN | CLOSING | CLOSED

datatype promise_state = Pending | Resolved | Rejected

text \<open>
  One entry per call of \<open>connect\<close>: the socket it created, the promise it returned, and
  whether the caller is the reconnection timer (which awaits the promise and emits
  \<open>reconnect\<close> when it resolves).
\<close>

record connection =
  readyState :: ready_state
  promise :: promise_state
  awaited_by_reconnect :: bool

datatype timer =
    Connect_timeout nat
  | Reconnect_timer rat

datatype outcome = Returns | Throws

text \<open>
  The fields of the class come first; \<open>ws\<close> is the index of the current socket in
  \<open>sockets\<close>. \<open>wire\<close> lists the frames accepted by \<open>ws.send\<close> with the socket they
  were written to, \<open>emitted\<close> the events raised, \<open>timers\<close> the pending
  \<open>setTimeout\<close> callbacks, all oldest first.
\<close>

record state =
  ws :: "nat option"
  config :: RequiredConfig
  sessionId :: "json option"
  isConnected :: bool
  messageQueue :: "StreamMessage list"
  reconnectAttempts :: int
  maxReconnectAttempts :: int
  sockets :: "connection list"
  wire :: "(nat \<times> frame) list"
  emitted :: "emitted list"
  timers :: "timer list"

definition new_GeminiLiveClient :: "GeminiLiveConfig \<Rightarrow> state" where
  "new_GeminiLiveClient cfg =
     \<lparr> ws = None,
       config = resolve_config cfg,
       sessionId = None,
       isConnected = False,
       messageQueue = [],
       reconnectAttempts = 0,
       maxReconnectAttempts = 3,
       sockets = [],
       wire = [],
       emitted = [],
       timers = [] \<rparr>"

text \<open>
  \<open>this.emit\<close> calls the listeners of the event. They are assumed to return normally
  and not to call the client back, and a listener for \<open>error\<close> is assumed to be
  registered (without one, raising \<open>error\<close> throws).
\<close>

definition emit :: "emitted \<Rightarrow> state \<Rightarrow> state" where
  "emit e s = s\<lparr>emitted := emitted s @ [e]\<rparr>"

definition ready :: "nat \<Rightarrow> state \<Rightarrow> ready_state" where
  "ready h s = (if h < length (sockets s) then readyState (sockets s ! h) else CLOSED)"

definition set_ready :: "nat \<Rightarrow> ready_state \<Rightarrow> state \<Rightarrow> state" where
  "set_ready h r s =
     (if h < length (sockets s)
      then s\<lparr>sockets := (sockets s)[h := (sockets s ! h)\<lparr>readyState := r\<rparr>]\<rparr>
      else s)"

text \<open>
  Modelled from the spec: the transport is the third-party \<open>ws\<close> package, which is not
  part of the repository. Section 4.1 of the specification gives its contract:
  \<open>send\<close> fails if the handle is not open; \<open>close\<close> starts the closing of a handle,
  and the terminal \<open>close\<close> event follows later.
\<close>

definition ws_send :: "nat \<Rightarrow> frame \<Rightarrow> state \<Rightarrow> outcome \<times> state" where
  "ws_send h f s =
     (if ready h s = OPEN then (Returns, s\<lparr>wire := wire s @ [(h, f)]\<rparr>) else (Throws, s))"

definition ws_close :: "nat \<Rightarrow> state \<Rightarrow> state" where
  "ws_close h s =
     (if ready h s = CONNECTING \<or> ready h s = OPEN then set_ready h CLOSING s else s)"

text \<open>The \<open>resolve\<close> and \<open>reject\<close> of the promise made by the \<open>h\<close>-th call of \<open>connect\<close>.
  A promise settles once. The reconnection timer's continuation after
  \<open>await this.connect()\<close> emits \<open>reconnect\<close>.\<close>

definition resolve :: "nat \<Rightarrow> state \<Rightarrow> state" where
  "resolve h s =
     (if h < length (sockets s) \<and> promise (sockets s ! h) = Pending
      then (let s' = s\<lparr>sockets := (sockets s)[h := (sockets s ! h)\<lparr>promise := Resolved\<rparr>]\<rparr>
            in if awaited_by_reconnect (sockets s ! h) then emit E_reconnect s' else s')
      else s)"

definition reject :: "nat \<Rightarrow> state \<Rightarrow> state" where
  "reject h s =
     (if h < length (sockets s) \<and> promise (sockets s ! h) = Pending
      then s\<lparr>sockets := (sockets s)[h := (sockets s ! h)\<lparr>promise := Rejected\<rparr>]\<rparr>
      else s)"

subsection \<open>Methods and handlers of \<open>GeminiLiveClient\<close>\<close>

text \<open>
  \<open>connect\<close> builds the URL from the configuration (assumed well formed, so that the
  WebSocket constructor returns), creates a new socket, stores it in \<open>this.ws\<close>,
  registers the four handlers on it and starts the ten-second timeout. The argument
  says whether the call comes from the reconnection timer.
\<close>

definition connect :: "bool \<Rightarrow> state \<Rightarrow> state" where
  "connect from_reconnect s =
     (let h = length (sockets s)
      in s\<lparr> ws := Some h,
            sockets := sockets s @
              [\<lparr>readyState = CONNECTING, promise = Pending,
                awaited_by_reconnect = from_reconnect\<rparr>],
            timers := timers s @ [Connect_timeout h] \<rparr>)"

definition configuration :: "state \<Rightarrow> configure" where
  "configuration s =
     \<lparr> thinking_level = config_thinkingLevel (config s),
       media_resolution = config_mediaResolution (config s),
       vad_enabled = config_vadEnabled (config s),
       interruption_threshold = config_interruptionThreshold (config s),
       search_grounding = config_searchGrounding (config s),
       code_execution = True,
       function_calling = True \<rparr>"

definition sendConfiguration :: "state \<Rightarrow> outcome \<times> state" where
  "sendConfiguration s =
     (case ws s of
        None \<Rightarrow> (Returns, s)
      | Some h \<Rightarrow>
          if \<not> isConnected s then (Returns, s)
          else ws_send h (Configure_frame (configuration s)) s)"

text \<open>
  \<open>sendMessage\<close> is an async function without an await: its body runs at the call, and
  \<open>Throws\<close> is the rejection of the promise it returns.
\<close>

definition sendMessage :: "StreamMessage \<Rightarrow> state \<Rightarrow> outcome \<times> state" where
  "sendMessage message s =
     (case ws s of
        None \<Rightarrow> (Returns, s\<lparr>messageQueue := messageQueue s @ [message]\<rparr>)
      | Some h \<Rightarrow>
          if \<not> isConnected s
          then (Returns, s\<lparr>messageQueue := messageQueue s @ [message]\<rparr>)
          else (case ws_send h (Data_frame message) s of
                  (Returns, s') \<Rightarrow> (Returns, emit (E_sent message) s')
                | (Throws, s') \<Rightarrow>
                    (Throws, s'\<lparr>messageQueue := messageQueue s' @ [message]\<rparr>)))"

text \<open>
  The \<open>while\<close> loop of \<open>processQueue\<close>. Nothing bounds it: a message that
  \<open>sendMessage\<close> puts back keeps the queue non-empty, so the loop may run forever, and
  then the value is \<open>None\<close>.
\<close>

partial_function (option) processQueue :: "state \<Rightarrow> state option" where
  "processQueue s =
     (if length (messageQueue s) > 0 \<and> isConnected s
      then (case messageQueue s of
              [] \<Rightarrow> processQueue s
            | message # rest \<Rightarrow>
                processQueue (snd (sendMessage message (s\<lparr>messageQueue := rest\<rparr>))))
      else Some s)"

declare processQueue.simps [code]

text \<open>The \<open>open\<close> handler registered on socket \<open>h\<close>. An exception of
  \<open>sendConfiguration\<close> leaves the handler at once.\<close>

definition on_open :: "nat \<Rightarrow> state \<Rightarrow> (outcome \<times> state) option" where
  "on_open h s =
     (let s1 = s\<lparr>isConnected := True, reconnectAttempts := 0\<rparr>
      in case sendConfiguration s1 of
           (Throws, s2) \<Rightarrow> Some (Throws, s2)
         | (Returns, s2) \<Rightarrow>
             (case processQueue s2 of
                None \<Rightarrow> None
              | Some s3 \<Rightarrow> Some (Returns, resolve h s3)))"

definition truthy_opt :: "json option \<Rightarrow> bool" where
  "truthy_opt v = (case v of None \<Rightarrow> False | Some j \<Rightarrow> truthy j)"

definition field :: "string \<Rightarrow> json \<Rightarrow> json option" where
  "field name message = (case property name message of Inl _ \<Rightarrow> None | Inr v \<Rightarrow> v)"

text \<open>
  An inbound frame as the handler meets it, through two library calls:
  \<open>parsed\<close> is the result of \<open>JSON.parse(data.toString())\<close> and \<open>decoded\<close> the result
  of \<open>Buffer.from(message.content, 'base64')\<close>, each \<open>None\<close> when the call throws.
\<close>

record inbound =
  parsed :: "json option"
  decoded :: "nat list option"

text \<open>The \<open>switch\<close> of \<open>handleMessage\<close>, on a message that is not \<open>null\<close>.\<close>

definition dispatch :: "json \<Rightarrow> nat list option \<Rightarrow> state \<Rightarrow> state" where
  "dispatch message audioBuffer s =
     (let kind = field ''type'' message
      in if kind = Some (JStr ''text'') then emit (E_text (field ''content'' message)) s
         else if kind = Some (JStr ''audio'') then
           (case audioBuffer of
              None \<Rightarrow> emit (E_error Handle_message_error) s
            | Some b \<Rightarrow> emit (E_audio b) s)
         else if kind = Some (JStr ''function_call'') then
           emit (E_function_call (field ''function_name'' message) (field ''arguments'' message)) s
         else if kind = Some (JStr ''thinking'') then
           emit (E_thinking (field ''content'' message)) s
         else if kind = Some (JStr ''error'') then
           emit (E_error (Server_error (field ''content'' message))) s
         else if kind = Some (JStr ''chunk'') then emit (E_chunk message) s
         else emit (E_message message) s)"

definition handleMessage :: "inbound \<Rightarrow> state \<Rightarrow> state" where
  "handleMessage data s =
     (case parsed data of
        None \<Rightarrow> emit (E_error Handle_message_error) s
      | Some message \<Rightarrow>
          (case property ''sessionId'' message of
             Inl _ \<Rightarrow> emit (E_error Handle_message_error) s
           | Inr sid \<Rightarrow>
               dispatch message (decoded data)
                 (if truthy_opt sid \<and> \<not> truthy_opt (sessionId s)
                  then (case sid of
                          None \<Rightarrow> s
                        | Some v \<Rightarrow> emit (E_session v) (s\<lparr>sessionId := Some v\<rparr>))
                  else s)))"

text \<open>\<open>this.sessionId || undefined\<close>\<close>

definition or_undefined :: "json option \<Rightarrow> json option" where
  "or_undefined v = (if truthy_opt v then v else None)"

text \<open>The four senders: each builds its \<open>StreamMessage\<close> and hands it to
  \<open>sendMessage\<close>. \<open>now\<close> is the value of \<open>Date.now()\<close>; an omitted
  \<open>mimeType\<close> or \<open>sampleRate\<close> takes its default.\<close>

definition text_message :: "string \<Rightarrow> nat \<Rightarrow> state \<Rightarrow> StreamMessage" where
  "text_message text now s =
     \<lparr> m_type = Text, m_data = TextData text, m_timestamp = now,
       m_sessionId = or_undefined (sessionId s) \<rparr>"

definition sendText :: "string \<Rightarrow> nat \<Rightarrow> state \<Rightarrow> outcome \<times> state" where
  "sendText text now s = sendMessage (text_message text now s) s"

definition video_message :: "nat list \<Rightarrow> string option \<Rightarrow> nat \<Rightarrow> state \<Rightarrow> StreamMessage" where
  "video_message frameBuffer mimeType now s =
     \<lparr> m_type = Video,
       m_data = VideoData (case mimeType of None \<Rightarrow> ''image/jpeg'' | Some t \<Rightarrow> t)
                  (Base64 frameBuffer),
       m_timestamp = now,
       m_sessionId = or_undefined (sessionId s) \<rparr>"

definition streamVideo :: "nat list \<Rightarrow> string option \<Rightarrow> nat \<Rightarrow> state \<Rightarrow> outcome \<times> state" where
  "streamVideo frameBuffer mimeType now s =
     sendMessage (video_message frameBuffer mimeType now s) s"

definition audio_message :: "nat list \<Rightarrow> number option \<Rightarrow> nat \<Rightarrow> state \<Rightarrow> StreamMessage" where
  "audio_message audioBuffer sampleRate now s =
     \<lparr> m_type = Audio,
       m_data = AudioData (case sampleRate of None \<Rightarrow> Num 16000 | Some r \<Rightarrow> r)
                  (Base64 audioBuffer),
       m_timestamp = now,
       m_sessionId = or_undefined (sessionId s) \<rparr>"

definition streamAudio :: "nat list \<Rightarrow> number option \<Rightarrow> nat \<Rightarrow> state \<Rightarrow> outcome \<times> state" where
  "streamAudio audioBuffer sampleRate now s =
     sendMessage (audio_message audioBuffer sampleRate now s) s"

definition function_call_message :: "string \<Rightarrow> json \<Rightarrow> nat \<Rightarrow> state \<Rightarrow> StreamMessage" where
  "function_call_message name args now s =
     \<lparr> m_type = Function_call, m_data = FunctionData name args, m_timestamp = now,
       m_sessionId = or_undefined (sessionId s) \<rparr>"

definition callFunction :: "string \<Rightarrow> json \<Rightarrow> nat \<Rightarrow> state \<Rightarrow> outcome \<times> state" where
  "callFunction name args now s = sendMessage (function_call_message name args now s) s"

definition interrupt :: "nat \<Rightarrow> state \<Rightarrow> outcome \<times> state" where
  "interrupt now s =
     (case ws s of
        None \<Rightarrow> (Returns, s)
      | Some h \<Rightarrow> if \<not> isConnected s then (Returns, s) else ws_send h (Interrupt_frame now) s)"

text \<open>\<open>attemptReconnect\<close> has no await either; the delay is \<open>Math.pow(2, n) * 1000\<close>.\<close>

definition attemptReconnect :: "state \<Rightarrow> state" where
  "attemptReconnect s =
     (if reconnectAttempts s \<ge> maxReconnectAttempts s then emit E_max_reconnect_reached s
      else (let s1 = s\<lparr>reconnectAttempts := reconnectAttempts s + 1\<rparr>;
                delay = power_int 2 (reconnectAttempts s1) * 1000
            in s1\<lparr>timers := timers s1 @ [Reconnect_timer delay]\<rparr>))"

definition disconnect :: "state \<Rightarrow> state" where
  "disconnect s =
     (let s1 = (case ws s of
                  None \<Rightarrow> s
                | Some h \<Rightarrow> (ws_close h (s\<lparr>isConnected := False\<rparr>))\<lparr>ws := None\<rparr>)
      in s1\<lparr>sessionId := None, messageQueue := []\<rparr>)"

definition getSessionId :: "state \<Rightarrow> json option" where
  "getSessionId s = sessionId s"

definition isActive :: "state \<Rightarrow> bool" where
  "isActive s = isConnected s"

text \<open>The \<open>error\<close> and \<open>close\<close> handlers registered on socket \<open>h\<close>.\<close>

definition on_error :: "nat \<Rightarrow> string \<Rightarrow> state \<Rightarrow> state" where
  "on_error h error s =
     (let s1 = emit (E_error (Transport_error error)) s
      in if \<not> isConnected s1 then reject h s1 else s1)"

definition on_close :: "nat \<Rightarrow> string \<Rightarrow> state \<Rightarrow> state" where
  "on_close code reason s =
     attemptReconnect (emit (E_disconnect code reason) (s\<lparr>isConnected := False\<rparr>))"

text \<open>The two \<open>setTimeout\<close> callbacks: the connection timeout of \<open>connect\<close> and the
  delayed reconnection of \<open>attemptReconnect\<close>.\<close>

fun fire :: "timer \<Rightarrow> state \<Rightarrow> state" where
  "fire (Connect_timeout h) s = (if \<not> isConnected s then reject h s else s)"
| "fire (Reconnect_timer delay) s = connect True s"

subsection \<open>Calls and callbacks\<close>

datatype event =
    Connect
  | SendText string nat
  | StreamVideo "nat list" "string option" nat
  | StreamAudio "nat list" "number option" nat
  | CallFunction string json nat
  | Interrupt nat
  | Disconnect
  | Ws_open nat
  | Ws_message nat inbound
  | Ws_error nat string
  | Ws_close nat nat string
  | Timer_fires nat

text \<open>
  What the runtime may deliver: \<open>open\<close> once, to a socket that is connecting; messages
  until the socket is closed; \<open>error\<close> and, once, \<open>close\<close> to a socket not yet
  closed; a timer that is pending (\<open>Timer_fires i\<close> is the \<open>i\<close>-th pending one).
  The application may call any method at any time.
\<close>

fun enabled :: "event \<Rightarrow> state \<Rightarrow> bool" where
  "enabled (Ws_open h) s = (h < length (sockets s) \<and> ready h s = CONNECTING)"
| "enabled (Ws_message h d) s = (h < length (sockets s) \<and> (ready h s = OPEN \<or> ready h s = CLOSING))"
| "enabled (Ws_error h e) s = (h < length (sockets s) \<and> ready h s \<noteq> CLOSED)"
| "enabled (Ws_close h c r) s = (h < length (sockets s) \<and> ready h s \<noteq> CLOSED)"
| "enabled (Timer_fires i) s = (i < length (timers s))"
| "enabled e s = True"

text \<open>
  One call or callback, run to completion; \<open>None\<close> when it never returns. An exception
  that leaves a callback keeps the state reached when it was thrown. A socket is open
  when its \<open>open\<close> handler runs, closing when its \<open>error\<close> handler runs (an
  error is terminal for it) and closed when its \<open>close\<close> handler runs.
\<close>

fun step :: "event \<Rightarrow> state \<Rightarrow> state option" where
  "step Connect s = Some (connect False s)"
| "step (SendText text now) s = Some (snd (sendText text now s))"
| "step (StreamVideo b t now) s = Some (snd (streamVideo b t now s))"
| "step (StreamAudio b r now) s = Some (snd (streamAudio b r now s))"
| "step (CallFunction name args now) s = Some (snd (callFunction name args now s))"
| "step (Interrupt now) s = Some (snd (interrupt now s))"
| "step Disconnect s = Some (disconnect s)"
| "step (Ws_open h) s = map_option snd (on_open h (set_ready h OPEN s))"
| "step (Ws_message h d) s = Some (handleMessage d s)"
| "step (Ws_error h e) s = Some (on_error h e (set_ready h CLOSING s))"
| "step (Ws_close h code reason) s = Some (on_close code reason (set_ready h CLOSED s))"
| "step (Timer_fires i) s =
     Some (fire (timers s ! i) (s\<lparr>timers := take i (timers s) @ drop (Suc i) (timers s)\<rparr>))"

text \<open>A run of calls and callbacks: \<open>None\<close> when one of them cannot be delivered or
  does not return.\<close>

fun run :: "event list \<Rightarrow> state \<Rightarrow> state option" where
  "run [] s = Some s"
| "run (e # es) s =
     (if enabled e s then (case step e s of None \<Rightarrow> None | Some s' \<Rightarrow> run es s') else None)"

subsection \<open>Vocabulary of the properties\<close>





fun is_configure :: "frame \<Rightarrow> bool" where
  "is_configure (Configure_frame c) = True"
| "is_configure f = False"

text \<open>
  A transport trace respects the handshake when every frame that is not a configuration
  frame goes to a socket that has been sent a configuration frame before; the first
  argument lists the sockets configured so far.
\<close>

fun handshake_first :: "nat list \<Rightarrow> (nat \<times> frame) list \<Rightarrow> bool" where
  "handshake_first configured [] = True"
| "handshake_first configured ((h, f) # w) =
     (if is_configure f then handshake_first (h # configured) w
      else h \<in> set configured \<and> handshake_first configured w)"

definition socket_states :: "state \<Rightarrow> ready_state list" where
  "socket_states s = map readyState (sockets s)"

text \<open>
  A reconnection attempt that fails: the timer of \<open>attemptReconnect\<close> fires (it is the
  \<open>i\<close>-th pending timer), the socket \<open>h\<close> it creates reports an error and closes
  without having opened. \<open>failed_attempts n i h\<close> is \<open>n\<close> such attempts in a row.
\<close>

fun failed_attempts :: "nat \<Rightarrow> nat \<Rightarrow> nat \<Rightarrow> event list" where
  "failed_attempts 0 i h = []"
| "failed_attempts (Suc n) i h =
     [Timer_fires i, Ws_error h ''connect failed'', Ws_close h 1006 []]
       @ failed_attempts n (Suc i) (Suc h)"

text \<open>The events of such a run, after the first close.\<close>

fun failed_events :: "nat \<Rightarrow> emitted list" where
  "failed_events 0 = []"
| "failed_events (Suc n) =
     [E_error (Transport_error ''connect failed''), E_disconnect 1006 []] @ failed_events n"

fun is_reconnect_timer :: "timer \<Rightarrow> bool" where
  "is_reconnect_timer (Reconnect_timer d) = True"
| "is_reconnect_timer t = False"

fun is_disconnect :: "emitted \<Rightarrow> bool" where
  "is_disconnect (E_disconnect code reason) = True"
| "is_disconnect e = False"

subsection \<open>Example inputs\<close>

definition example_config :: GeminiLiveConfig where
  "example_config =
     \<lparr> apiKey = ''key'', model = None, thinkingLevel = Some high, mediaResolution = None,
       vadEnabled = None, interruptionThreshold = Some (Num 0), searchGrounding = None \<rparr>"

definition example_client :: state where
  "example_client = new_GeminiLiveClient example_config"

text \<open>The example client after \<open>connect()\<close>, and after the socket has then opened.\<close>

definition connecting_client :: state where
  "connecting_client =
     example_client
       \<lparr> ws := Some 0,
         sockets := [\<lparr>readyState = CONNECTING, promise = Pending, awaited_by_reconnect = False\<rparr>],
         timers := [Connect_timeout 0] \<rparr>"

definition active_client :: state where
  "active_client =
     example_client
       \<lparr> ws := Some 0,
         isConnected := True,
         sockets := [\<lparr>readyState = OPEN, promise = Resolved, awaited_by_reconnect = False\<rparr>],
         wire := [(0, Configure_frame (configuration example_client))],
         timers := [Connect_timeout 0] \<rparr>"

text \<open>The example client after its connection has dropped: the first reconnection is
  scheduled.\<close>

definition dropped_client :: state where
  "dropped_client =
     active_client
       \<lparr> isConnected := False,
         reconnectAttempts := 1,
         sockets := [\<lparr>readyState = CLOSED, promise = Resolved, awaited_by_reconnect = False\<rparr>],
         emitted := [E_disconnect 1006 []],
         timers := [Connect_timeout 0, Reconnect_timer 2000] \<rparr>"

text \<open>The same client after the reconnection timer has fired: the first reconnection attempt
  is under way.\<close>

definition reconnecting_client :: state where
  "reconnecting_client =
     active_client
       \<lparr> ws := Some 1,
         isConnected := False,
         reconnectAttempts := 1,
         sockets := [\<lparr>readyState = CLOSED, promise = Resolved, awaited_by_reconnect = False\<rparr>,
                     \<lparr>readyState = CONNECTING, promise = Pending, awaited_by_reconnect = True\<rparr>],
         emitted := [E_disconnect 1006 []],
         timers := [Connect_timeout 0, Connect_timeout 1] \<rparr>"

text \<open>An inbound frame \<open>{"type": "text", "content": "hi", "sessionId": sid}\<close>.\<close>

definition session_frame :: "string \<Rightarrow> inbound" where
  "session_frame sid =
     \<lparr> parsed = Some (JObj [(''type'', JStr ''text''), (''content'', JStr ''hi''),
                             (''sessionId'', JStr sid)]),
       decoded = Some [134] \<rparr>"

subsection \<open>Invariant of the reconnection counter\<close>

text \<open>
  A pending reconnection timer carries a delay of \<open>2^k * 1000\<close> ms for an attempt
  number \<open>k\<close> between 1 and the attempt limit \<open>m\<close>.
\<close>

fun backoff_delay :: "int \<Rightarrow> timer \<Rightarrow> bool" where
  "backoff_delay m (Reconnect_timer d) = (d \<in> (\<lambda>k. 2 ^ k * 1000) ` {1..nat m})"
| "backoff_delay m (Connect_timeout h) = True"

text \<open>The attempt counter lies between 0 and the limit, and every pending reconnection
  timer has such a delay.\<close>

definition backoff_inv :: "state \<Rightarrow> bool" where
  "backoff_inv s =
     (0 \<le> reconnectAttempts s \<and> reconnectAttempts s \<le> maxReconnectAttempts s
      \<and> (\<forall>t \<in> set (timers s). backoff_delay (maxReconnectAttempts s) t))"

text \<open>Two states with the same counter, limit and pending timers.\<close>

definition same_backoff :: "state \<Rightarrow> state \<Rightarrow> bool" where
  "same_backoff s s' =
     (reconnectAttempts s' = reconnectAttempts s
      \<and> maxReconnectAttempts s' = maxReconnectAttempts s \<and> timers s' = timers s)"

subsection \<open>The handshake invariant\<close>

text \<open>The sockets that a transport trace has sent a configuration frame.\<close>

definition configured :: "(nat \<times> frame) list \<Rightarrow> nat set" where
  "configured w = fst ` set (filter (\<lambda>p. is_configure (snd p)) w)"

text \<open>
  The invariant behind the handshake order: the trace respects the handshake, the current
  socket has been configured if it is open, and no frame was written to a socket that is
  still connecting or does not exist.
\<close>

definition handshake_inv :: "state \<Rightarrow> bool" where
  "handshake_inv s =
     (handshake_first [] (wire s)
      \<and> (\<forall>h. ws s = Some h \<longrightarrow> ready h s = OPEN \<longrightarrow> h \<in> configured (wire s))
      \<and> (\<forall>p \<in> set (wire s). ready (fst p) s \<noteq> CONNECTING \<and> fst p < length (sockets s)))"

text \<open>Two states with the same current socket, transport trace and socket states.\<close>

definition same_transport :: "state \<Rightarrow> state \<Rightarrow> bool" where
  "same_transport s s' =
     (ws s' = ws s \<and> wire s' = wire s \<and> length (sockets s') = length (sockets s)
      \<and> (\<forall>h. ready h s' = ready h s))"

section \<open>Properties\<close>

subsection \<open>Sockets and the queue loop\<close>

lemma ready_update [simp]:
  "ready h (s\<lparr>ws := a\<rparr>) = ready h s"
  "ready h (s\<lparr>sessionId := b\<rparr>) = ready h s"
  "ready h (s\<lparr>isConnected := c\<rparr>) = ready h s"
  "ready h (s\<lparr>messageQueue := d\<rparr>) = ready h s"
  "ready h (s\<lparr>reconnectAttempts := e\<rparr>) = ready h s"
  "ready h (s\<lparr>wire := f\<rparr>) = ready h s"
  "ready h (s\<lparr>emitted := g\<rparr>) = ready h s"
  "ready h (s\<lparr>timers := i\<rparr>) = ready h s"
  by (simp_all add: ready_def)

lemma ready_emit [simp]: "ready h (emit e s) = ready h s"
  by (simp add: emit_def)

lemma ready_in_range:
  "ready h s = CONNECTING \<Longrightarrow> h < length (sockets s)"
  "ready h s = OPEN \<Longrightarrow> h < length (sockets s)"
  "ready h s = CLOSING \<Longrightarrow> h < length (sockets s)"
  by (simp_all add: ready_def split: if_splits)

lemma ready_set_ready:
  "ready h (set_ready k r s) = (if h = k \<and> k < length (sockets s) then r else ready h s)"
  by (simp add: ready_def set_ready_def nth_list_update)

lemma ready_connect:
  "ready h (connect b s) = (if h = length (sockets s) then CONNECTING else ready h s)"
  by (simp add: ready_def connect_def Let_def nth_append)

lemma ready_resolve [simp]: "ready h (resolve k s) = ready h s"
  by (simp add: ready_def resolve_def emit_def Let_def nth_list_update)

lemma ready_reject [simp]: "ready h (reject k s) = ready h s"
  by (simp add: ready_def reject_def nth_list_update)

lemma length_sockets_set_ready [simp]: "length (sockets (set_ready h r s)) = length (sockets s)"
  by (simp add: set_ready_def)

lemma ready_ws_close:
  "ready h (ws_close k s) =
     (if h = k \<and> (ready k s = CONNECTING \<or> ready k s = OPEN) then CLOSING else ready h s)"
  by (auto simp: ws_close_def ready_set_ready dest: ready_in_range)

lemma ready_disconnect:
  "ready h (disconnect s) =
     (if ws s = Some h \<and> (ready h s = CONNECTING \<or> ready h s = OPEN) then CLOSING
      else ready h s)"
  by (auto simp: disconnect_def ready_ws_close split: option.splits)

lemma disconnect_fields [simp]:
  "ws (disconnect s) = None"
  "sessionId (disconnect s) = None"
  "messageQueue (disconnect s) = []"
  "timers (disconnect s) = timers s"
  "emitted (disconnect s) = emitted s"
  "wire (disconnect s) = wire s"
  "reconnectAttempts (disconnect s) = reconnectAttempts s"
  "maxReconnectAttempts (disconnect s) = maxReconnectAttempts s"
  "length (sockets (disconnect s)) = length (sockets s)"
  by (simp_all add: disconnect_def ws_close_def set_ready_def split: option.splits)

lemma set_ready_fields [simp]:
  "ws (set_ready h r s) = ws s"
  "wire (set_ready h r s) = wire s"
  "isConnected (set_ready h r s) = isConnected s"
  "messageQueue (set_ready h r s) = messageQueue s"
  "reconnectAttempts (set_ready h r s) = reconnectAttempts s"
  "maxReconnectAttempts (set_ready h r s) = maxReconnectAttempts s"
  "emitted (set_ready h r s) = emitted s"
  "timers (set_ready h r s) = timers s"
  "sessionId (set_ready h r s) = sessionId s"
  "config (set_ready h r s) = config s"
  by (simp_all add: set_ready_def)

lemma emit_fields [simp]:
  "ws (emit e s) = ws s"
  "wire (emit e s) = wire s"
  "isConnected (emit e s) = isConnected s"
  "messageQueue (emit e s) = messageQueue s"
  "reconnectAttempts (emit e s) = reconnectAttempts s"
  "maxReconnectAttempts (emit e s) = maxReconnectAttempts s"
  "emitted (emit e s) = emitted s @ [e]"
  "timers (emit e s) = timers s"
  "sessionId (emit e s) = sessionId s"
  "config (emit e s) = config s"
  "sockets (emit e s) = sockets s"
  by (simp_all add: emit_def)

lemma resolve_fields [simp]:
  "ws (resolve h s) = ws s"
  "wire (resolve h s) = wire s"
  "isConnected (resolve h s) = isConnected s"
  "messageQueue (resolve h s) = messageQueue s"
  "reconnectAttempts (resolve h s) = reconnectAttempts s"
  "maxReconnectAttempts (resolve h s) = maxReconnectAttempts s"
  "timers (resolve h s) = timers s"
  "sessionId (resolve h s) = sessionId s"
  "config (resolve h s) = config s"
  "length (sockets (resolve h s)) = length (sockets s)"
  by (simp_all add: resolve_def Let_def)

lemma reject_fields [simp]:
  "ws (reject h s) = ws s"
  "wire (reject h s) = wire s"
  "isConnected (reject h s) = isConnected s"
  "messageQueue (reject h s) = messageQueue s"
  "reconnectAttempts (reject h s) = reconnectAttempts s"
  "maxReconnectAttempts (reject h s) = maxReconnectAttempts s"
  "emitted (reject h s) = emitted s"
  "timers (reject h s) = timers s"
  "sessionId (reject h s) = sessionId s"
  "config (reject h s) = config s"
  "length (sockets (reject h s)) = length (sockets s)"
  by (simp_all add: reject_def)

lemma connect_fields [simp]:
  "ws (connect b s) = Some (length (sockets s))"
  "wire (connect b s) = wire s"
  "isConnected (connect b s) = isConnected s"
  "messageQueue (connect b s) = messageQueue s"
  "reconnectAttempts (connect b s) = reconnectAttempts s"
  "maxReconnectAttempts (connect b s) = maxReconnectAttempts s"
  "emitted (connect b s) = emitted s"
  "timers (connect b s) = timers s @ [Connect_timeout (length (sockets s))]"
  "sessionId (connect b s) = sessionId s"
  "config (connect b s) = config s"
  "length (sockets (connect b s)) = Suc (length (sockets s))"
  by (simp_all add: connect_def Let_def)



lemma connecting_client_reached: "run [Connect] example_client = Some connecting_client"
  by code_simp

lemma active_client_reached: "run [Connect, Ws_open 0] example_client = Some active_client"
  by code_simp

lemma dropped_client_reached:
  "run [Connect, Ws_open 0, Ws_close 0 1006 []] example_client = Some dropped_client"
  by code_simp

subsection \<open>Reconnection after a caller's \<open>disconnect\<close>\<close>

text \<open>
  Claim C2, as stated, fails. The client connects, the socket opens, the caller calls
  \<open>disconnect()\<close>, and the socket it closed reports its close: the close handler
  schedules a reconnection, whose timer opens a second socket; when that socket opens the
  client is connected again and has raised \<open>reconnect\<close>.
\<close>

theorem disconnect_then_reconnect:
  "map_option emitted
      (run [Connect, Ws_open 0, Disconnect, Ws_close 0 1005 [], Timer_fires 1, Ws_open 1]
         example_client) = Some [E_disconnect 1005 [], E_reconnect]
   \<and> map_option socket_states
      (run [Connect, Ws_open 0, Disconnect, Ws_close 0 1005 [], Timer_fires 1, Ws_open 1]
         example_client) = Some [CLOSED, OPEN]
   \<and> map_option isConnected
      (run [Connect, Ws_open 0, Disconnect, Ws_close 0 1005 [], Timer_fires 1, Ws_open 1]
         example_client) = Some True"
  by code_simp

text \<open>
  Claim C2, amended: the close handler does not tell a close that follows the caller's
  \<open>disconnect()\<close> from an unexpected one. When the socket that \<open>disconnect()\<close> closed
  reports its close, the client raises \<open>disconnect\<close> and runs the reconnection
  controller: below the attempt limit it counts an attempt and schedules a reconnection
  after \<open>2^attempt * 1000\<close> ms, at the limit it raises \<open>max_reconnect_reached\<close>.
\<close>

theorem close_after_disconnect_reconnects:
  "ws s = Some h \<Longrightarrow> ready h s = OPEN \<or> ready h s = CONNECTING \<Longrightarrow>
   enabled (Ws_close h code reason) (disconnect s)
   \<and> (\<exists>s'. step (Ws_close h code reason) (disconnect s) = Some s'
        \<and> (if reconnectAttempts s < maxReconnectAttempts s
            then reconnectAttempts s' = reconnectAttempts s + 1
               \<and> emitted s' = emitted s @ [E_disconnect code reason]
               \<and> timers s' = timers s @
                    [Reconnect_timer (power_int 2 (reconnectAttempts s + 1) * 1000)]
            else emitted s' = emitted s @ [E_disconnect code reason, E_max_reconnect_reached]
               \<and> timers s' = timers s))"
proof -
  assume a: "ws s = Some h" "ready h s = OPEN \<or> ready h s = CONNECTING"
  then have h: "h < length (sockets s)"
    by (auto dest: ready_in_range)
  have "enabled (Ws_close h code reason) (disconnect s)"
    using a h by (auto simp: ready_disconnect)
  then show ?thesis
    by (simp add: on_close_def attemptReconnect_def emit_def set_ready_def Let_def)
qed

theorem close_after_disconnect_reconnects_witness:
  "ws active_client = Some 0 \<and> ready 0 active_client = OPEN
   \<and> enabled (Ws_close 0 1005 []) (disconnect active_client)
   \<and> map_option timers (step (Ws_close 0 1005 []) (disconnect active_client))
       = Some [Connect_timeout 0, Reconnect_timer 2000]"
proof -
  have a: "ws active_client = Some 0" "ready 0 active_client = OPEN \<or> ready 0 active_client = CONNECTING"
    by (simp_all add: active_client_def ready_def)
  have b: "reconnectAttempts active_client < maxReconnectAttempts active_client"
    "reconnectAttempts active_client = 0" "timers active_client = [Connect_timeout 0]"
    by (simp_all add: active_client_def example_client_def new_GeminiLiveClient_def)
  show ?thesis
    using a b close_after_disconnect_reconnects [OF a, of 1005 "[]"]
    by (auto simp: active_client_def ready_def)
qed

subsection \<open>\<open>disconnect\<close> during a backoff delay\<close>

text \<open>
  Claim C5, as stated, fails. The connection drops, a reconnection is scheduled, and the
  caller calls \<open>disconnect()\<close> during the delay: the timer is still pending, it fires
  and opens a second socket, and when that socket opens the client is connected.
\<close>

theorem disconnect_during_backoff:
  "map_option timers (run [Connect, Ws_open 0, Ws_close 0 1006 [], Disconnect] example_client)
     = Some [Connect_timeout 0, Reconnect_timer 2000]
   \<and> map_option socket_states
       (run [Connect, Ws_open 0, Ws_close 0 1006 [], Disconnect, Timer_fires 1] example_client)
     = Some [CLOSED, CONNECTING]
   \<and> map_option isConnected
       (run [Connect, Ws_open 0, Ws_close 0 1006 [], Disconnect, Timer_fires 1, Ws_open 1]
          example_client)
     = Some True"
  by code_simp

text \<open>
  Claim C5, amended: \<open>disconnect()\<close> leaves the pending timers as they are. A
  reconnection scheduled before it stays scheduled, and when its timer fires
  \<open>connect()\<close> runs: a new socket is created, connecting, and becomes the current one.
\<close>

theorem disconnect_keeps_reconnect_timer:
  "i < length (timers s) \<Longrightarrow> timers s ! i = Reconnect_timer d \<Longrightarrow>
   timers (disconnect s) = timers s
   \<and> enabled (Timer_fires i) (disconnect s)
   \<and> (\<exists>s'. step (Timer_fires i) (disconnect s) = Some s'
         \<and> ws s' = Some (length (sockets s))
         \<and> length (sockets s') = Suc (length (sockets s))
         \<and> ready (length (sockets s)) s' = CONNECTING)"
  by (simp add: ready_connect)

theorem disconnect_keeps_reconnect_timer_witness:
  "1 < length (timers dropped_client) \<and> timers dropped_client ! 1 = Reconnect_timer 2000
   \<and> timers (disconnect dropped_client) = timers dropped_client
   \<and> enabled (Timer_fires 1) (disconnect dropped_client)
   \<and> map_option ws (step (Timer_fires 1) (disconnect dropped_client)) = Some (Some 1)
   \<and> map_option socket_states (step (Timer_fires 1) (disconnect dropped_client))
       = Some [CLOSED, CONNECTING]"
proof -
  have a: "1 < length (timers dropped_client)" "timers dropped_client ! 1 = Reconnect_timer 2000"
    by (simp_all add: dropped_client_def)
  have b: "map_option socket_states (step (Timer_fires 1) (disconnect dropped_client))
       = Some [CLOSED, CONNECTING]"
    by code_simp
  have c: "length (sockets dropped_client) = 1"
    by (simp add: dropped_client_def)
  from disconnect_keeps_reconnect_timer [OF a] obtain s' where
    "timers (disconnect dropped_client) = timers dropped_client"
    "enabled (Timer_fires 1) (disconnect dropped_client)"
    "step (Timer_fires 1) (disconnect dropped_client) = Some s'"
    "ws s' = Some (length (sockets dropped_client))"
    by blast
  then show ?thesis using a b c by simp
qed

subsection \<open>A write that fails\<close>

text \<open>
  Claim C6, as stated, fails. With the client connected, a second \<open>connect()\<close> makes a
  socket that is still connecting the current one, so the writes of two texts fail. The
  second text, whose write failed, is then last in the queue, behind the first, not at
  the front.
\<close>

theorem failed_write_not_at_front:
  "map_option (fst \<circ> sendText ''b'' 2)
      (run [Connect, Ws_open 0, Connect, SendText ''a'' 1] example_client) = Some Throws
   \<and> map_option (map m_data \<circ> messageQueue)
      (run [Connect, Ws_open 0, Connect, SendText ''a'' 1, SendText ''b'' 2] example_client)
       = Some [TextData ''a'', TextData ''b'']"
  by code_simp

text \<open>
  Claim C6, amended: a message whose write fails (the client is connected and the
  current socket is not open) is appended to the end of the outbound queue, behind the
  messages already queued; it is not lost, nothing else changes, and the promise of
  \<open>sendMessage\<close> is rejected.
\<close>

theorem failed_write_goes_to_back:
  "isConnected s \<Longrightarrow> ws s = Some h \<Longrightarrow> ready h s \<noteq> OPEN \<Longrightarrow>
   sendMessage m s = (Throws, s\<lparr>messageQueue := messageQueue s @ [m]\<rparr>)"
  by (simp add: sendMessage_def ws_send_def)

theorem failed_write_goes_to_back_witness:
  "isConnected (connect False active_client) \<and> ws (connect False active_client) = Some 1
   \<and> ready 1 (connect False active_client) \<noteq> OPEN
   \<and> sendMessage (text_message ''b'' 2 active_client) (connect False active_client)
       = (Throws, (connect False active_client)
            \<lparr>messageQueue := messageQueue (connect False active_client)
                 @ [text_message ''b'' 2 active_client]\<rparr>)"
proof -
  have a: "isConnected (connect False active_client)" "ws (connect False active_client) = Some 1"
    "ready 1 (connect False active_client) \<noteq> OPEN"
    by (simp_all add: connect_def active_client_def ready_def)
  show ?thesis
    using a failed_write_goes_to_back [OF a, of "text_message ''b'' 2 active_client"] by simp
qed

subsection \<open>The session identifier across a reconnection\<close>

text \<open>
  Claim C7 against the code: the first connection is assigned session \<open>A\<close>, drops and
  is re-established, and the new connection is assigned session \<open>B\<close>. The close
  handler does not clear the identifier (only \<open>disconnect()\<close> does), so the client
  keeps \<open>A\<close> and raises \<open>session\<close> once, for \<open>A\<close>.
\<close>

theorem session_kept_across_reconnect:
  "map_option sessionId
     (run [Connect, Ws_open 0, Ws_message 0 (session_frame ''A''), Ws_close 0 1006 [],
           Timer_fires 1, Ws_open 1, Ws_message 1 (session_frame ''B'')] example_client)
     = Some (Some (JStr ''A''))
   \<and> map_option emitted
     (run [Connect, Ws_open 0, Ws_message 0 (session_frame ''A''), Ws_close 0 1006 [],
           Timer_fires 1, Ws_open 1, Ws_message 1 (session_frame ''B'')] example_client)
     = Some [E_session (JStr ''A''), E_text (Some (JStr ''hi'')), E_disconnect 1006 [],
             E_reconnect, E_text (Some (JStr ''hi''))]"
  by code_simp

subsection \<open>\<open>connect\<close> called again\<close>

text \<open>
  Claim C8, as stated, fails: a second \<open>connect()\<close>, while the first socket is
  connecting or after it has opened, creates a second socket and makes it the current
  one.
\<close>

theorem connect_not_idempotent:
  "map_option socket_states (run [Connect, Connect] example_client) = Some [CONNECTING, CONNECTING]
   \<and> map_option socket_states (run [Connect, Ws_open 0, Connect] example_client)
       = Some [OPEN, CONNECTING]
   \<and> map_option ws (run [Connect, Ws_open 0, Connect] example_client) = Some (Some 1)"
  by code_simp

text \<open>
  Claim C8, amended: \<open>connect()\<close> is not idempotent. It can be called in every state,
  and \<open>n\<close> calls in a row create \<open>n\<close> new sockets, each connecting and with its own
  pending promise; the last one is the current socket. The sockets created before are left
  as they are, and the connected flag and the transport trace do not change.
\<close>

theorem connect_always_opens_a_socket:
  "\<exists>s'. run (replicate n Connect) s = Some s'
     \<and> sockets s' = sockets s @
          replicate n \<lparr>readyState = CONNECTING, promise = Pending, awaited_by_reconnect = False\<rparr>
     \<and> (0 < n \<longrightarrow> ws s' = Some (length (sockets s) + n - 1))
     \<and> isConnected s' = isConnected s \<and> wire s' = wire s"
proof (induction n arbitrary: s)
  case 0
  then show ?case by simp
next
  case (Suc n)
  let ?c = "\<lparr>readyState = CONNECTING, promise = Pending, awaited_by_reconnect = False\<rparr>"
  from Suc [of "connect False s"] obtain s' where
    r: "run (replicate n Connect) (connect False s) = Some s'"
    and k: "sockets s' = sockets (connect False s) @ replicate n ?c"
    and w: "0 < n \<longrightarrow> ws s' = Some (length (sockets (connect False s)) + n - 1)"
    and i: "isConnected s' = isConnected (connect False s)" "wire s' = wire (connect False s)"
    by blast
  have c: "sockets (connect False s) = sockets s @ [?c]"
    by (simp add: connect_def Let_def)
  have "sockets s' = sockets s @ replicate (Suc n) ?c"
    using k c by (simp add: replicate_app_Cons_same)
  moreover have "ws s' = Some (length (sockets s) + Suc n - 1)"
  proof (cases n)
    case 0
    with r show ?thesis by auto
  next
    case (Suc m)
    with w show ?thesis by simp
  qed
  ultimately show ?case using r i by simp
qed

theorem connect_always_opens_a_socket_witness:
  "0 < (2::nat)
   \<and> map_option socket_states (run (replicate 2 Connect) active_client)
       = Some [OPEN, CONNECTING, CONNECTING]
   \<and> map_option ws (run (replicate 2 Connect) active_client) = Some (Some 2)"
proof -
  from connect_always_opens_a_socket [of 2 active_client] obtain s' where
    "run (replicate 2 Connect) active_client = Some s'"
    "sockets s' = sockets active_client @
          replicate 2 \<lparr>readyState = CONNECTING, promise = Pending, awaited_by_reconnect = False\<rparr>"
    "ws s' = Some (length (sockets active_client) + 2 - 1)"
    by auto
  then show ?thesis
    by (simp add: socket_states_def active_client_def numeral_2_eq_2)
qed

subsection \<open>\<open>interrupt\<close>\<close>

text \<open>
  Claim C9, as stated, fails. With the client connected, a second \<open>connect()\<close> makes a
  socket that is still connecting the current one. The client is then not Active in the
  sense of an open connection, while \<open>isActive()\<close> still answers true; and
  \<open>interrupt()\<close> is neither sent nor silently dropped: the write throws, and the
  exception reaches the caller.
\<close>

theorem interrupt_throws_when_socket_not_open:
  "map_option isActive (run [Connect, Ws_open 0, Connect] example_client) = Some True
   \<and> map_option socket_states (run [Connect, Ws_open 0, Connect] example_client)
       = Some [OPEN, CONNECTING]
   \<and> map_option ws (run [Connect, Ws_open 0, Connect] example_client) = Some (Some 1)
   \<and> map_option (fst \<circ> interrupt 5) (run [Connect, Ws_open 0, Connect] example_client)
       = Some Throws
   \<and> map_option wire (run [Connect, Ws_open 0, Connect, Interrupt 5] example_client)
       = Some [(0, Configure_frame (configuration example_client))]"
  by code_simp

text \<open>
  Claim C9, amended: \<open>interrupt()\<close> writes its frame at once exactly when the client is
  connected and its current socket is open. In every other state nothing is written and
  the state is left as it was, so that every later run is the one without the call: the
  interrupt is not queued and not sent later. With no current socket or with the client
  not connected the call returns silently; with the client connected and the current
  socket not open the exception of the write reaches the caller. The outbound queue is
  never touched.
\<close>

theorem interrupt_sent_iff_active:
  "(isConnected s \<and> ws s = Some h \<and> ready h s = OPEN \<longrightarrow>
      interrupt now s = (Returns, s\<lparr>wire := wire s @ [(h, Interrupt_frame now)]\<rparr>))
   \<and> (\<not> (isConnected s \<and> (\<exists>k. ws s = Some k \<and> ready k s = OPEN)) \<longrightarrow>
        snd (interrupt now s) = s \<and> run (Interrupt now # es) s = run es s)
   \<and> (ws s = None \<or> \<not> isConnected s \<longrightarrow> fst (interrupt now s) = Returns)
   \<and> (isConnected s \<and> ws s = Some h \<and> ready h s \<noteq> OPEN \<longrightarrow>
        interrupt now s = (Throws, s))
   \<and> messageQueue (snd (interrupt now s)) = messageQueue s"
  by (auto simp: interrupt_def ws_send_def split: option.splits)

theorem interrupt_sent_iff_active_witness:
  "(isConnected active_client \<and> ws active_client = Some 0 \<and> ready 0 active_client = OPEN)
   \<and> interrupt 5 active_client
       = (Returns, active_client\<lparr>wire := wire active_client @ [(0, Interrupt_frame 5)]\<rparr>)
   \<and> \<not> isConnected connecting_client
   \<and> interrupt 5 connecting_client = (Returns, connecting_client)
   \<and> run [Interrupt 5, Ws_open 0] connecting_client = run [Ws_open 0] connecting_client
   \<and> (isConnected (connect False active_client) \<and> ws (connect False active_client) = Some 1
        \<and> ready 1 (connect False active_client) \<noteq> OPEN)
   \<and> interrupt 5 (connect False active_client) = (Throws, connect False active_client)
   \<and> run [Interrupt 5, Ws_open 1] (connect False active_client)
       = run [Ws_open 1] (connect False active_client)"
proof -
  have a: "isConnected active_client \<and> ws active_client = Some 0 \<and> ready 0 active_client = OPEN"
    by (simp add: active_client_def ready_def)
  have b: "\<not> isConnected connecting_client"
    by (simp add: connecting_client_def example_client_def new_GeminiLiveClient_def)
  have c: "isConnected (connect False active_client) \<and> ws (connect False active_client) = Some 1
        \<and> ready 1 (connect False active_client) \<noteq> OPEN"
    by (simp add: connect_def active_client_def ready_def)
  have d: "\<not> (isConnected (connect False active_client)
        \<and> (\<exists>k. ws (connect False active_client) = Some k
              \<and> ready k (connect False active_client) = OPEN))"
    using c by auto
  note t1 = interrupt_sent_iff_active [of active_client 0 5 "[]"]
  note t2 = interrupt_sent_iff_active [of connecting_client 0 5 "[Ws_open 0]"]
  note t3 = interrupt_sent_iff_active [of "connect False active_client" 1 5 "[Ws_open 1]"]
  have 1: "interrupt 5 active_client
       = (Returns, active_client\<lparr>wire := wire active_client @ [(0, Interrupt_frame 5)]\<rparr>)"
    using a t1 by blast
  have 2: "interrupt 5 connecting_client = (Returns, connecting_client)"
    "run [Interrupt 5, Ws_open 0] connecting_client = run [Ws_open 0] connecting_client"
    using b t2 by (simp_all add: prod_eq_iff)
  have 3: "interrupt 5 (connect False active_client) = (Throws, connect False active_client)"
    using c t3 by blast
  have 4: "run [Interrupt 5, Ws_open 1] (connect False active_client)
       = run [Ws_open 1] (connect False active_client)"
    using d t3 by blast
  show ?thesis
    using a b c 1 2 3 4 by blast
qed

subsection \<open>The constructor's defaults\<close>

text \<open>
  Claim C10: an \<open>interruptionThreshold\<close> of 0, like every falsy number, is replaced by
  the default 0.5 in the constructor, while voice-activity detection is off exactly when
  \<open>vadEnabled\<close> is given as \<open>false\<close>.
\<close>

theorem falsy_threshold_replaced:
  "(interruptionThreshold cfg = Some (Num 0) \<longrightarrow>
      config_interruptionThreshold (config (new_GeminiLiveClient cfg)) = Num (1 / 2))
   \<and> (\<forall>n. interruptionThreshold cfg = Some n \<and> \<not> truthy_number n \<longrightarrow>
      config_interruptionThreshold (config (new_GeminiLiveClient cfg)) = Num (1 / 2))
   \<and> (config_vadEnabled (config (new_GeminiLiveClient cfg)) = False
        \<longleftrightarrow> vadEnabled cfg = Some False)"
  by (simp add: new_GeminiLiveClient_def resolve_config_def or_number_def)

theorem falsy_threshold_replaced_witness:
  "interruptionThreshold example_config = Some (Num 0) \<and> \<not> truthy_number (Num 0)
   \<and> config_interruptionThreshold (config (new_GeminiLiveClient example_config)) = Num (1 / 2)
   \<and> interruption_threshold (configuration (new_GeminiLiveClient example_config)) = Num (1 / 2)"
  using falsy_threshold_replaced [of example_config]
  by (simp add: example_config_def configuration_def)

subsection \<open>The reconnection counter and the backoff delays\<close>

lemma same_backoff_refl [simp]: "same_backoff s s"
  by (simp add: same_backoff_def)

lemma same_backoff_update [simp]:
  "same_backoff s (t\<lparr>ws := a\<rparr>) = same_backoff s t"
  "same_backoff s (t\<lparr>sessionId := b\<rparr>) = same_backoff s t"
  "same_backoff s (t\<lparr>isConnected := c\<rparr>) = same_backoff s t"
  "same_backoff s (t\<lparr>messageQueue := d\<rparr>) = same_backoff s t"
  "same_backoff s (t\<lparr>sockets := e\<rparr>) = same_backoff s t"
  "same_backoff s (t\<lparr>wire := f\<rparr>) = same_backoff s t"
  "same_backoff s (t\<lparr>emitted := g\<rparr>) = same_backoff s t"
  "same_backoff (t\<lparr>messageQueue := d\<rparr>) s = same_backoff t s"
  by (simp_all add: same_backoff_def)

lemma same_backoff_basic [simp]:
  "same_backoff s (emit e s)"
  "same_backoff s (set_ready h r s)"
  "same_backoff s (resolve h s)"
  "same_backoff s (reject h s)"
  "same_backoff s (ws_close h s)"
  "same_backoff s (snd (ws_send h f s))"
  by (simp_all add: same_backoff_def emit_def set_ready_def resolve_def reject_def
      ws_close_def ws_send_def Let_def)

lemma same_backoff_sendMessage: "same_backoff s (snd (sendMessage m s))"
  by (simp add: sendMessage_def ws_send_def emit_def same_backoff_def split: option.splits)

lemma same_backoff_sendConfiguration: "same_backoff s (snd (sendConfiguration s))"
  by (simp add: sendConfiguration_def split: option.splits)

lemma same_backoff_interrupt: "same_backoff s (snd (interrupt now s))"
  by (simp add: interrupt_def split: option.splits)

lemma same_backoff_disconnect: "same_backoff s (disconnect s)"
  by (simp add: same_backoff_def)

lemma same_backoff_handleMessage: "same_backoff s (handleMessage d s)"
  by (simp add: handleMessage_def dispatch_def emit_def same_backoff_def Let_def
      split: option.splits sum.splits)

lemma same_backoff_on_error: "same_backoff s (on_error h err s)"
  by (simp add: on_error_def Let_def reject_def emit_def same_backoff_def)

lemma same_backoff_processQueue:
  assumes "processQueue s = Some s'"
  shows "same_backoff s s'"
proof (rule processQueue.raw_induct [where P = same_backoff, OF _ assms])
  fix loop s s'
  assume IH: "\<And>x y. loop x = Some y \<Longrightarrow> same_backoff x y"
    and eq: "(if 0 < length (messageQueue s) \<and> isConnected s
              then case messageQueue s of
                     [] \<Rightarrow> loop s
                   | message # rest \<Rightarrow>
                       loop (snd (sendMessage message (s\<lparr>messageQueue := rest\<rparr>)))
              else Some s) = Some s'"
  show "same_backoff s s'"
  proof (cases "0 < length (messageQueue s) \<and> isConnected s")
    case False
    with eq show ?thesis by auto
  next
    case True
    then obtain m rest where q: "messageQueue s = m # rest"
      by (cases "messageQueue s") auto
    let ?t = "snd (sendMessage m (s\<lparr>messageQueue := rest\<rparr>))"
    from eq True q have "loop ?t = Some s'" by simp
    then have "same_backoff ?t s'" by (rule IH)
    moreover have "same_backoff (s\<lparr>messageQueue := rest\<rparr>) ?t"
      by (rule same_backoff_sendMessage)
    ultimately show ?thesis
      by (simp add: same_backoff_def)
  qed
qed

lemma on_open_backoff:
  "on_open h s = Some (r, s') \<Longrightarrow>
   reconnectAttempts s' = 0 \<and> maxReconnectAttempts s' = maxReconnectAttempts s
   \<and> timers s' = timers s"
proof -
  assume a: "on_open h s = Some (r, s')"
  let ?s1 = "s\<lparr>isConnected := True, reconnectAttempts := 0\<rparr>"
  obtain r2 s2 where c: "sendConfiguration ?s1 = (r2, s2)" by fastforce
  have s2: "same_backoff ?s1 s2" using same_backoff_sendConfiguration [of ?s1] c by simp
  show ?thesis
  proof (cases r2)
    case Throws
    with a c s2 show ?thesis by (simp add: on_open_def same_backoff_def)
  next
    case Returns
    with a c obtain s3 where p: "processQueue s2 = Some s3" and r: "s' = resolve h s3"
      by (auto simp: on_open_def split: option.splits)
    have "same_backoff s2 s3" using p by (rule same_backoff_processQueue)
    moreover have "same_backoff s3 s'" using r by simp
    ultimately show ?thesis using s2 by (simp add: same_backoff_def)
  qed
qed

lemma power_int_nat: "0 \<le> k \<Longrightarrow> power_int (2::rat) k = 2 ^ nat k"
  by (simp add: power_int_def)

lemma attemptReconnect_backoff:
  "backoff_inv s \<Longrightarrow> backoff_inv (attemptReconnect s)"
proof -
  assume a: "backoff_inv s"
  show ?thesis
  proof (cases "reconnectAttempts s \<ge> maxReconnectAttempts s")
    case True
    with a show ?thesis by (simp add: backoff_inv_def attemptReconnect_def emit_def)
  next
    case False
    let ?k = "nat (reconnectAttempts s + 1)"
    have k: "?k \<in> {1..nat (maxReconnectAttempts s)}"
      using a False by (auto simp: backoff_inv_def)
    have "backoff_delay (maxReconnectAttempts s) (Reconnect_timer (2 ^ ?k * 1000))"
      using k by (simp del: atLeastAtMost_iff)
    then show ?thesis
      using a False
      by (simp add: backoff_inv_def attemptReconnect_def Let_def power_int_nat)
  qed
qed

lemma backoff_inv_cong: "same_backoff s s' \<Longrightarrow> backoff_inv s \<Longrightarrow> backoff_inv s'"
  by (simp add: same_backoff_def backoff_inv_def)

lemma backoff_inv_connect: "backoff_inv s \<Longrightarrow> backoff_inv (connect b s)"
  by (auto simp: backoff_inv_def connect_def Let_def)

lemma backoff_inv_drop_timer:
  "backoff_inv s \<Longrightarrow> backoff_inv (s\<lparr>timers := take i (timers s) @ drop (Suc i) (timers s)\<rparr>)"
  by (auto simp: backoff_inv_def dest: in_set_takeD in_set_dropD)

lemma step_backoff: "step e s = Some s' \<Longrightarrow> backoff_inv s \<Longrightarrow> backoff_inv s'"
proof (cases e)
  case Connect
  then show "step e s = Some s' \<Longrightarrow> backoff_inv s \<Longrightarrow> backoff_inv s'"
    by (auto simp: backoff_inv_connect)
next
  case (SendText body now)
  then show "step e s = Some s' \<Longrightarrow> backoff_inv s \<Longrightarrow> backoff_inv s'"
    using same_backoff_sendMessage backoff_inv_cong by (auto simp: sendText_def)
next
  case (StreamVideo b t now)
  then show "step e s = Some s' \<Longrightarrow> backoff_inv s \<Longrightarrow> backoff_inv s'"
    using same_backoff_sendMessage backoff_inv_cong by (auto simp: streamVideo_def)
next
  case (StreamAudio b r now)
  then show "step e s = Some s' \<Longrightarrow> backoff_inv s \<Longrightarrow> backoff_inv s'"
    using same_backoff_sendMessage backoff_inv_cong by (auto simp: streamAudio_def)
next
  case (CallFunction name args now)
  then show "step e s = Some s' \<Longrightarrow> backoff_inv s \<Longrightarrow> backoff_inv s'"
    using same_backoff_sendMessage backoff_inv_cong by (auto simp: callFunction_def)
next
  case (Interrupt now)
  then show "step e s = Some s' \<Longrightarrow> backoff_inv s \<Longrightarrow> backoff_inv s'"
    using same_backoff_interrupt backoff_inv_cong by auto
next
  case Disconnect
  then show "step e s = Some s' \<Longrightarrow> backoff_inv s \<Longrightarrow> backoff_inv s'"
    using same_backoff_disconnect backoff_inv_cong by auto
next
  case (Ws_open h)
  assume a: "step e s = Some s'" "backoff_inv s"
  with Ws_open obtain r where "on_open h (set_ready h OPEN s) = Some (r, s')"
    by auto
  from on_open_backoff [OF this] a(2) show "backoff_inv s'"
    by (simp add: backoff_inv_def set_ready_def)
next
  case (Ws_message h d)
  then show "step e s = Some s' \<Longrightarrow> backoff_inv s \<Longrightarrow> backoff_inv s'"
    using same_backoff_handleMessage backoff_inv_cong by auto
next
  case (Ws_error h err)
  assume a: "step e s = Some s'" "backoff_inv s"
  have "backoff_inv (set_ready h CLOSING s)"
    by (rule backoff_inv_cong [OF _ a(2)]) simp
  then have "backoff_inv (on_error h err (set_ready h CLOSING s))"
    by (rule backoff_inv_cong [OF same_backoff_on_error])
  then show "backoff_inv s'" using a(1) Ws_error by simp
next
  case (Ws_close h code reason)
  assume a: "step e s = Some s'" "backoff_inv s"
  have "backoff_inv (emit (E_disconnect code reason) ((set_ready h CLOSED s)\<lparr>isConnected := False\<rparr>))"
    by (rule backoff_inv_cong [OF _ a(2)]) (simp add: same_backoff_def emit_def set_ready_def)
  then show "backoff_inv s'"
    using a(1) Ws_close by (auto simp: on_close_def attemptReconnect_backoff)
next
  case (Timer_fires i)
  assume a: "step e s = Some s'" "backoff_inv s"
  let ?t = "s\<lparr>timers := take i (timers s) @ drop (Suc i) (timers s)\<rparr>"
  have t: "backoff_inv ?t" using a(2) by (rule backoff_inv_drop_timer)
  have "backoff_inv (fire x ?t)" for x
    by (cases x) (auto simp: t backoff_inv_connect intro: backoff_inv_cong [OF _ t])
  then show "backoff_inv s'" using a(1) Timer_fires by auto
qed

lemma run_backoff: "run es s = Some s' \<Longrightarrow> backoff_inv s \<Longrightarrow> backoff_inv s'"
proof (induction es arbitrary: s)
  case Nil
  then show ?case by simp
next
  case (Cons e es)
  then show ?case
    by (auto split: if_splits option.splits dest: step_backoff)
qed

lemma backoff_inv_new: "backoff_inv (new_GeminiLiveClient cfg)"
  by (simp add: backoff_inv_def new_GeminiLiveClient_def)

lemma reconnecting_client_reached:
  "run [Connect, Ws_open 0, Ws_close 0 1006 [], Timer_fires 1] (new_GeminiLiveClient example_config)
     = Some reconnecting_client"
  by code_simp

text \<open>
  Claim C4: in every state the client can reach, the attempt counter lies between 0 and
  the limit and the pending reconnection delays are \<open>2^k * 1000\<close> ms with
  \<open>k\<close> from 1 to the limit; below the limit \<open>attemptReconnect\<close> first increments
  the counter and then schedules the reconnection after \<open>2^counter * 1000\<close> ms for
  the new counter; and the \<open>open\<close> handler resets the counter to 0.
\<close>

theorem backoff_doubles_and_counter_resets:
  assumes "run es (new_GeminiLiveClient cfg) = Some s"
  shows "0 \<le> reconnectAttempts s \<and> reconnectAttempts s \<le> maxReconnectAttempts s
    \<and> (reconnectAttempts s < maxReconnectAttempts s \<longrightarrow>
         reconnectAttempts (attemptReconnect s) = reconnectAttempts s + 1
         \<and> timers (attemptReconnect s) = timers s @
             [Reconnect_timer (2 ^ nat (reconnectAttempts (attemptReconnect s)) * 1000)])
    \<and> (\<forall>h s'. step (Ws_open h) s = Some s' \<longrightarrow> reconnectAttempts s' = 0)
    \<and> backoff_inv s"
proof -
  have i: "backoff_inv s"
    using assms backoff_inv_new by (rule run_backoff)
  then have r: "0 \<le> reconnectAttempts s" "reconnectAttempts s \<le> maxReconnectAttempts s"
    by (simp_all add: backoff_inv_def)
  have o: "reconnectAttempts s' = 0" if "step (Ws_open h) s = Some s'" for h s'
  proof -
    from that obtain r where "on_open h (set_ready h OPEN s) = Some (r, s')" by auto
    from on_open_backoff [OF this] show ?thesis by simp
  qed
  have a: "reconnectAttempts (attemptReconnect s) = reconnectAttempts s + 1
         \<and> timers (attemptReconnect s) = timers s @
             [Reconnect_timer (2 ^ nat (reconnectAttempts (attemptReconnect s)) * 1000)]"
    if "reconnectAttempts s < maxReconnectAttempts s"
    using that r by (simp add: attemptReconnect_def Let_def power_int_nat)
  show ?thesis using i r o a by blast
qed

theorem backoff_doubles_and_counter_resets_witness:
  "run [Connect, Ws_open 0, Ws_close 0 1006 [], Timer_fires 1] (new_GeminiLiveClient example_config)
     = Some reconnecting_client
   \<and> reconnectAttempts reconnecting_client = 1
   \<and> reconnectAttempts reconnecting_client < maxReconnectAttempts reconnecting_client
   \<and> reconnectAttempts (attemptReconnect reconnecting_client) = 2
   \<and> timers (attemptReconnect reconnecting_client)
       = timers reconnecting_client @ [Reconnect_timer 4000]
   \<and> map_option reconnectAttempts (step (Ws_open 1) reconnecting_client) = Some 0
   \<and> backoff_delay 3 (Reconnect_timer 2000)"
proof -
  have r: "run [Connect, Ws_open 0, Ws_close 0 1006 [], Timer_fires 1]
      (new_GeminiLiveClient example_config) = Some reconnecting_client"
    by code_simp
  have d: "run [Connect, Ws_open 0, Ws_close 0 1006 []]
      (new_GeminiLiveClient example_config) = Some dropped_client"
    by code_simp
  have "backoff_inv dropped_client"
    using backoff_doubles_and_counter_resets [OF d] by blast
  then have b: "backoff_delay 3 (Reconnect_timer 2000)"
    by (simp add: backoff_inv_def dropped_client_def active_client_def example_client_def
        new_GeminiLiveClient_def)
  have f: "reconnectAttempts reconnecting_client = 1" "maxReconnectAttempts reconnecting_client = 3"
    by (simp_all add: reconnecting_client_def active_client_def example_client_def
        new_GeminiLiveClient_def)
  have st: "step (Ws_open 1) reconnecting_client
      = Some (the (step (Ws_open 1) reconnecting_client))"
    by code_simp
  note t = backoff_doubles_and_counter_resets [OF r]
  from t st have "reconnectAttempts (the (step (Ws_open 1) reconnecting_client)) = 0"
    by blast
  then have o: "map_option reconnectAttempts (step (Ws_open 1) reconnecting_client) = Some 0"
    by (subst st) simp
  from t f have "reconnectAttempts (attemptReconnect reconnecting_client) = 2
     \<and> timers (attemptReconnect reconnecting_client)
       = timers reconnecting_client @ [Reconnect_timer 4000]"
    by simp
  with r f o b show ?thesis by simp
qed


subsection \<open>The configuration frame comes first\<close>

lemma configured_append [simp]:
  "configured (w @ [(h, f)]) = (if is_configure f then insert h (configured w) else configured w)"
  by (auto simp: configured_def)

lemma configured_Cons [simp]:
  "configured ((h, f) # w) = (if is_configure f then insert h (configured w) else configured w)"
  by (auto simp: configured_def)

lemma configured_Nil [simp]: "configured [] = {}"
  by (simp add: configured_def)



lemma same_transport_refl [simp]: "same_transport s s"
  by (simp add: same_transport_def)

lemma same_transport_update [simp]:
  "same_transport s (t\<lparr>sessionId := b\<rparr>) = same_transport s t"
  "same_transport s (t\<lparr>isConnected := c\<rparr>) = same_transport s t"
  "same_transport s (t\<lparr>messageQueue := d\<rparr>) = same_transport s t"
  "same_transport s (t\<lparr>reconnectAttempts := e\<rparr>) = same_transport s t"
  "same_transport s (t\<lparr>emitted := g\<rparr>) = same_transport s t"
  "same_transport s (t\<lparr>timers := i\<rparr>) = same_transport s t"
  by (simp_all add: same_transport_def)

lemma same_transport_basic [simp]:
  "same_transport s (emit e s)"
  "same_transport s (resolve h s)"
  "same_transport s (reject h s)"
  by (simp_all add: same_transport_def)






lemma handshake_inv_queue [simp]:
  "handshake_inv (s\<lparr>messageQueue := q\<rparr>) = handshake_inv s"
  by (simp add: handshake_inv_def)


























subsection \<open>Giving up after the last reconnection attempt\<close>

text \<open>
  A close followed by \<open>n\<close> failed reconnection attempts, from a state whose counter is
  \<open>n\<close> below the limit: the run is possible and ends with \<open>max_reconnect_reached\<close>.
\<close>

lemma failed_run:
  "maxReconnectAttempts s = reconnectAttempts s + int n \<Longrightarrow> ready k s \<noteq> CLOSED \<Longrightarrow>
   \<exists>s'. run (Ws_close k code reason
              # failed_attempts n (length (timers s)) (length (sockets s))) s = Some s'
     \<and> emitted s' = emitted s @ E_disconnect code reason # failed_events n
                       @ [E_max_reconnect_reached]
     \<and> reconnectAttempts s' = maxReconnectAttempts s
     \<and> maxReconnectAttempts s' = maxReconnectAttempts s
     \<and> timers s' = timers s
          @ map Connect_timeout [length (sockets s)..<length (sockets s) + n]
     \<and> length (sockets s') = length (sockets s) + n
     \<and> \<not> isConnected s'
     \<and> wire s' = wire s
     \<and> (\<forall>j. ready j s' = (if j = k \<or> length (sockets s) \<le> j then CLOSED else ready j s))"
proof (induction n arbitrary: s k code reason)
  case 0
  have k: "k < length (sockets s)"
    using 0(2) by (cases "ready k s") (auto dest: ready_in_range)
  have "ready j s = CLOSED" if "length (sockets s) \<le> j" for j
    using that by (simp add: ready_def)
  then show ?case
    using 0 k
    by (auto simp: on_close_def attemptReconnect_def ready_set_ready)
next
  case (Suc n)
  let ?L = "length (sockets s)"
  let ?T = "length (timers s)"
  let ?a = "reconnectAttempts s"
  have k: "k < ?L"
    using Suc.prems(2) by (cases "ready k s") (auto dest: ready_in_range)
  have lt: "\<not> maxReconnectAttempts s \<le> ?a" using Suc.prems(1) by simp
  let ?s1 = "on_close code reason (set_ready k CLOSED s)"
  have s1: "timers ?s1 = timers s @ [Reconnect_timer (power_int 2 (?a + 1) * 1000)]"
    "reconnectAttempts ?s1 = ?a + 1" "maxReconnectAttempts ?s1 = maxReconnectAttempts s"
    "emitted ?s1 = emitted s @ [E_disconnect code reason]" "\<not> isConnected ?s1"
    "length (sockets ?s1) = ?L" "wire ?s1 = wire s"
    "\<And>j. ready j ?s1 = (if j = k then CLOSED else ready j s)"
    using lt k by (simp_all add: on_close_def attemptReconnect_def Let_def ready_set_ready)
  let ?s2 = "connect True (?s1\<lparr>timers := take ?T (timers ?s1) @ drop (Suc ?T) (timers ?s1)\<rparr>)"
  have f: "step (Timer_fires ?T) ?s1 = Some ?s2"
    by (simp add: s1)
  have s2: "timers ?s2 = timers s @ [Connect_timeout ?L]"
    "reconnectAttempts ?s2 = ?a + 1" "maxReconnectAttempts ?s2 = maxReconnectAttempts s"
    "emitted ?s2 = emitted s @ [E_disconnect code reason]" "\<not> isConnected ?s2"
    "length (sockets ?s2) = Suc ?L" "wire ?s2 = wire s"
    "\<And>j. ready j ?s2 = (if j = ?L then CONNECTING else if j = k then CLOSED else ready j s)"
    using s1 by (simp_all add: ready_connect)
  let ?s3 = "on_error ?L ''connect failed'' (set_ready ?L CLOSING ?s2)"
  have s3: "timers ?s3 = timers s @ [Connect_timeout ?L]"
    "reconnectAttempts ?s3 = ?a + 1" "maxReconnectAttempts ?s3 = maxReconnectAttempts s"
    "emitted ?s3 = emitted s @ [E_disconnect code reason,
        E_error (Transport_error ''connect failed'')]" "\<not> isConnected ?s3"
    "length (sockets ?s3) = Suc ?L" "wire ?s3 = wire s"
    "\<And>j. ready j ?s3 = (if j = ?L then CLOSING else if j = k then CLOSED else ready j s)"
    using s2 by (simp_all add: on_error_def Let_def ready_set_ready)
  have "maxReconnectAttempts ?s3 = reconnectAttempts ?s3 + int n" "ready ?L ?s3 \<noteq> CLOSED"
    using Suc.prems(1) s3 by simp_all
  from Suc.IH [OF this, of 1006 "[]"] obtain s' where
    r: "run (Ws_close ?L 1006 [] # failed_attempts n (length (timers ?s3)) (length (sockets ?s3))) ?s3
         = Some s'"
    and e: "emitted s' = emitted ?s3 @ E_disconnect 1006 [] # failed_events n
                       @ [E_max_reconnect_reached]"
    and c: "reconnectAttempts s' = maxReconnectAttempts ?s3"
       "maxReconnectAttempts s' = maxReconnectAttempts ?s3"
    and t: "timers s' = timers ?s3
          @ map Connect_timeout [length (sockets ?s3)..<length (sockets ?s3) + n]"
    and l: "length (sockets s') = length (sockets ?s3) + n"
    and i: "\<not> isConnected s'" and w: "wire s' = wire ?s3"
    and y: "\<forall>j. ready j s' = (if j = ?L \<or> length (sockets ?s3) \<le> j then CLOSED else ready j ?s3)"
    by blast
  have en: "enabled (Ws_close k code reason) s" "enabled (Timer_fires ?T) ?s1"
    "enabled (Ws_error ?L ''connect failed'') ?s2"
    using k Suc.prems(2) s1 s2 by simp_all
  have "run (Ws_close k code reason # failed_attempts (Suc n) ?T ?L) s
      = run (Ws_close ?L 1006 [] # failed_attempts n (Suc ?T) (Suc ?L)) ?s3"
    using en f by (simp del: step.simps enabled.simps add: step.simps(10,11))
  then have "run (Ws_close k code reason # failed_attempts (Suc n) ?T ?L) s = Some s'"
    using r s3 by simp
  moreover have "emitted s' = emitted s @ E_disconnect code reason # failed_events (Suc n)
                       @ [E_max_reconnect_reached]"
    using e s3 by simp
  moreover have "timers s' = timers s @ map Connect_timeout [?L..<?L + Suc n]"
    using t s3 by (simp add: upt_conv_Cons)
  moreover have "\<forall>j. ready j s' = (if j = k \<or> ?L \<le> j then CLOSED else ready j s)"
    using y s3 by auto
  ultimately show ?case
    using c l i w s3 by (intro exI [of _ s']) simp
qed


lemma failed_events_no_max: "count_list (failed_events n) E_max_reconnect_reached = 0"
  by (induction n) simp_all

lemma failed_events_disconnects: "length (filter is_disconnect (failed_events n)) = n"
  by (induction n) simp_all

text \<open>
  Claim C3, as stated, fails. The limit is 3. After three consecutive unexpected closes
  (the connection drops, and the first two reconnection attempts fail) the client has
  raised no \<open>max_reconnect_reached\<close> and a third reconnection is scheduled, after
  8000 ms. And after the fourth close, when the event has been raised, the client is not in
  a terminal state: a \<open>connect()\<close> by the caller connects it again.
\<close>

theorem three_closes_do_not_stop:
  "map_option emitted
     (run [Connect, Ws_open 0, Ws_close 0 1006 [],
           Timer_fires 1, Ws_error 1 ''connect failed'', Ws_close 1 1006 [],
           Timer_fires 2, Ws_error 2 ''connect failed'', Ws_close 2 1006 []] example_client)
     = Some [E_disconnect 1006 [],
             E_error (Transport_error ''connect failed''), E_disconnect 1006 [],
             E_error (Transport_error ''connect failed''), E_disconnect 1006 []]
   \<and> map_option timers
     (run [Connect, Ws_open 0, Ws_close 0 1006 [],
           Timer_fires 1, Ws_error 1 ''connect failed'', Ws_close 1 1006 [],
           Timer_fires 2, Ws_error 2 ''connect failed'', Ws_close 2 1006 []] example_client)
     = Some [Connect_timeout 0, Connect_timeout 1, Connect_timeout 2, Reconnect_timer 8000]
   \<and> map_option maxReconnectAttempts
     (run [Connect, Ws_open 0, Ws_close 0 1006 [],
           Timer_fires 1, Ws_error 1 ''connect failed'', Ws_close 1 1006 [],
           Timer_fires 2, Ws_error 2 ''connect failed'', Ws_close 2 1006 []] example_client)
     = Some 3
   \<and> map_option isConnected
     (run [Connect, Ws_open 0, Ws_close 0 1006 [],
           Timer_fires 1, Ws_error 1 ''connect failed'', Ws_close 1 1006 [],
           Timer_fires 2, Ws_error 2 ''connect failed'', Ws_close 2 1006 [],
           Timer_fires 3, Ws_error 3 ''connect failed'', Ws_close 3 1006 [],
           Connect, Ws_open 4] example_client)
     = Some True"
  by code_simp

text \<open>
  Claim C3, amended: with the counter at 0, the limit at \<open>N\<close>, one socket alive
  and no reconnection pending, \<open>N + 1\<close> consecutive unexpected closes (the close of
  that socket, then the failure of each of the \<open>N\<close> reconnection attempts) can
  happen, and after them the client has raised \<open>disconnect\<close> \<open>N + 1\<close> times and
  \<open>max_reconnect_reached\<close> exactly once, as the last event; it has made exactly
  \<open>N\<close> reconnection attempts, it is not connected, no reconnection is pending and
  every socket is closed, so that no further reconnection follows.
\<close>

theorem max_reconnect_after_failed_attempts:
  assumes "reconnectAttempts s = 0" and "maxReconnectAttempts s = int N"
    and "ready k s \<noteq> CLOSED" and "\<forall>j. j \<noteq> k \<longrightarrow> ready j s = CLOSED"
    and "\<forall>t \<in> set (timers s). \<not> is_reconnect_timer t"
  shows "\<exists>s'. run (Ws_close k code reason
                   # failed_attempts N (length (timers s)) (length (sockets s))) s = Some s'
     \<and> emitted s' = emitted s @ E_disconnect code reason # failed_events N
                       @ [E_max_reconnect_reached]
     \<and> count_list (emitted s') E_max_reconnect_reached
          = count_list (emitted s) E_max_reconnect_reached + 1
     \<and> length (filter is_disconnect (emitted s'))
          = length (filter is_disconnect (emitted s)) + N + 1
     \<and> length (sockets s') = length (sockets s) + N
     \<and> reconnectAttempts s' = int N
     \<and> \<not> isConnected s'
     \<and> (\<forall>t \<in> set (timers s'). \<not> is_reconnect_timer t)
     \<and> (\<forall>j. ready j s' = CLOSED)"
proof -
  have "maxReconnectAttempts s = reconnectAttempts s + int N"
    using assms(1,2) by simp
  from failed_run [OF this assms(3), of code reason] obtain s' where
    r: "run (Ws_close k code reason
              # failed_attempts N (length (timers s)) (length (sockets s))) s = Some s'"
    and e: "emitted s' = emitted s @ E_disconnect code reason # failed_events N
                       @ [E_max_reconnect_reached]"
    and c: "reconnectAttempts s' = maxReconnectAttempts s"
    and t: "timers s' = timers s
          @ map Connect_timeout [length (sockets s)..<length (sockets s) + N]"
    and l: "length (sockets s') = length (sockets s) + N"
    and i: "\<not> isConnected s'"
    and y: "\<forall>j. ready j s' = (if j = k \<or> length (sockets s) \<le> j then CLOSED else ready j s)"
    by blast
  have "count_list (emitted s') E_max_reconnect_reached
          = count_list (emitted s) E_max_reconnect_reached + 1"
    by (simp add: e failed_events_no_max)
  moreover have "length (filter is_disconnect (emitted s'))
          = length (filter is_disconnect (emitted s)) + N + 1"
    by (simp add: e failed_events_disconnects)
  moreover have "\<forall>t \<in> set (timers s'). \<not> is_reconnect_timer t"
    using assms(5) by (auto simp: t)
  moreover have "\<forall>j. ready j s' = CLOSED"
    using y assms(4) by simp
  ultimately show ?thesis
    using r e l c i assms(2) by (intro exI [of _ s']) simp
qed

theorem max_reconnect_after_failed_attempts_witness:
  "reconnectAttempts active_client = 0 \<and> maxReconnectAttempts active_client = int 3
   \<and> ready 0 active_client \<noteq> CLOSED
   \<and> list_all (\<lambda>t. \<not> is_reconnect_timer t) (timers active_client)
   \<and> map_option emitted
        (run [Ws_close 0 1006 [],
              Timer_fires 1, Ws_error 1 ''connect failed'', Ws_close 1 1006 [],
              Timer_fires 2, Ws_error 2 ''connect failed'', Ws_close 2 1006 [],
              Timer_fires 3, Ws_error 3 ''connect failed'', Ws_close 3 1006 []] active_client)
      = Some [E_disconnect 1006 [],
              E_error (Transport_error ''connect failed''), E_disconnect 1006 [],
              E_error (Transport_error ''connect failed''), E_disconnect 1006 [],
              E_error (Transport_error ''connect failed''), E_disconnect 1006 [],
              E_max_reconnect_reached]"
proof -
  have a: "reconnectAttempts active_client = 0" "maxReconnectAttempts active_client = int 3"
    "ready 0 active_client \<noteq> CLOSED" "\<forall>j. j \<noteq> 0 \<longrightarrow> ready j active_client = CLOSED"
    "\<forall>t \<in> set (timers active_client). \<not> is_reconnect_timer t"
    "emitted active_client = []" "length (timers active_client) = 1"
    "length (sockets active_client) = 1"
    by (simp_all add: active_client_def example_client_def new_GeminiLiveClient_def ready_def)
  have f: "failed_attempts 3 1 1 =
      [Timer_fires 1, Ws_error 1 ''connect failed'', Ws_close 1 1006 [],
       Timer_fires 2, Ws_error 2 ''connect failed'', Ws_close 2 1006 [],
       Timer_fires 3, Ws_error 3 ''connect failed'', Ws_close 3 1006 []]"
    by (simp add: numeral_3_eq_3)
  have g: "failed_events 3 =
      [E_error (Transport_error ''connect failed''), E_disconnect 1006 [],
       E_error (Transport_error ''connect failed''), E_disconnect 1006 [],
       E_error (Transport_error ''connect failed''), E_disconnect 1006 []]"
    by (simp add: numeral_3_eq_3)
  from max_reconnect_after_failed_attempts [OF a(1) a(2) a(3) a(4) a(5), of 1006 "[]"]
  obtain s' where
    "run (Ws_close 0 1006 [] # failed_attempts 3 (length (timers active_client))
        (length (sockets active_client))) active_client = Some s'"
    "emitted s' = emitted active_client @ E_disconnect 1006 [] # failed_events 3
                       @ [E_max_reconnect_reached]"
    by blast
  then have "map_option emitted
        (run (Ws_close 0 1006 [] # failed_attempts 3 1 1) active_client)
      = Some (E_disconnect 1006 [] # failed_events 3 @ [E_max_reconnect_reached])"
    using a(6,7,8) by simp
  then show ?thesis
    using a(1,2,3,5) unfolding f g by (simp add: list_all_iff)
qed

end
